theory Spec2Isabelle
  imports Complex_Main "HOL-Library.Multiset"
begin

section \<open>Data model of route\_planner\_python.py\<close>

text \<open>
  Python floats are modelled by the reals: distances are finite real numbers, and the one
  non-finite value the planner writes itself, \<^verbatim>\<open>float('inf')\<close>, is a constructor of
  its own. Every algorithm below takes the distance metric as the parameter \<open>calc\<close>
  (\<^verbatim>\<open>self.dist_calc.calculate\<close>), so each theorem holds for every metric, the haversine
  formula \<open>calculate\<close> included.
\<close>

record Coordinate =
  longitude :: real
  latitude :: real

datatype distance = Meters real | Infinity

text \<open>\<^verbatim>\<open>d < best\<close> for a finite \<open>d\<close> and a \<open>best\<close> that may still be \<^verbatim>\<open>float('inf')\<close>.\<close>

fun dist_less :: "real \<Rightarrow> distance \<Rightarrow> bool" where
  "dist_less d Infinity = True"
| "dist_less d (Meters b) = (d < b)"

text \<open>
  What a call can do instead of returning: raise one of Python's exceptions, or, for the
  \<^verbatim>\<open>while\<close> loop of the 2-opt search, not return at all.
\<close>

datatype error = ValueError | IndexError | NonTermination

record DistanceCalculator =
  distance_cache :: "(nat \<times> nat) \<rightharpoonup> real"
  use_cache :: bool

record AlgorithmConfig =
  population_size :: nat
  cooling_rate :: real
  initial_temperature :: real
  max_iterations :: int
  cfg_use_cache :: bool
  enable_local_search :: bool

record RouteResult =
  path :: "Coordinate list"
  total_distance :: distance
  start_index :: nat
  end_index :: nat

record RoutePlanner =
  config :: AlgorithmConfig
  dist_calc :: DistanceCalculator

subsection \<open>DistanceCalculator\<close>

text \<open>\<^verbatim>\<open>math.atan2(y, x)\<close> on the reals.\<close>

definition atan2 :: "real \<Rightarrow> real \<Rightarrow> real" where
  "atan2 y x =
     (if 0 < x then arctan (y / x)
      else if x < 0 then (if 0 \<le> y then arctan (y / x) + pi else arctan (y / x) - pi)
      else if 0 < y then pi / 2
      else if y < 0 then - (pi / 2)
      else 0)"

definition calculate :: "Coordinate \<Rightarrow> Coordinate \<Rightarrow> real" where
  "calculate a b =
     (let R = 6371000;
          lat1 = latitude a * pi / 180;
          lat2 = latitude b * pi / 180;
          delta_lat = (latitude b - latitude a) * pi / 180;
          delta_lon = (longitude b - longitude a) * pi / 180;
          aa = sin (delta_lat / 2) * sin (delta_lat / 2) +
               cos lat1 * cos lat2 * sin (delta_lon / 2) * sin (delta_lon / 2);
          c = 2 * atan2 (sqrt aa) (sqrt (1 - aa))
      in R * c)"

definition clear_distance_cache :: "DistanceCalculator \<Rightarrow> DistanceCalculator" where
  "clear_distance_cache dc = dc\<lparr>distance_cache := Map.empty\<rparr>"

text \<open>
  \<^verbatim>\<open>get_distance(points, i, j)\<close> returns the distance and the calculator with its cache
  as the call leaves it; an index outside \<open>points\<close> raises.
\<close>

definition get_distance ::
  "(Coordinate \<Rightarrow> Coordinate \<Rightarrow> real) \<Rightarrow> DistanceCalculator \<Rightarrow> Coordinate list \<Rightarrow> nat \<Rightarrow> nat
     \<Rightarrow> error + (real \<times> DistanceCalculator)" where
  "get_distance calc dc points i j =
     (if \<not> use_cache dc then
        (if i < length points \<and> j < length points
         then Inr (calc (points ! i) (points ! j), dc) else Inl IndexError)
      else
        (let key = (min i j, max i j) in
         case distance_cache dc key of
           Some d \<Rightarrow> Inr (d, dc)
         | None \<Rightarrow>
             (if i < length points \<and> j < length points
              then (let dist = calc (points ! i) (points ! j)
                    in Inr (dist, dc\<lparr>distance_cache := (distance_cache dc)(key \<mapsto> dist)\<rparr>))
              else Inl IndexError)))"

definition default_config :: AlgorithmConfig where
  "default_config = \<lparr>population_size = 100, cooling_rate = 995 / 1000,
     initial_temperature = 10000, max_iterations = 100000,
     cfg_use_cache = True, enable_local_search = True\<rparr>"

definition new_planner :: "AlgorithmConfig \<Rightarrow> RoutePlanner" where
  "new_planner cfg =
     \<lparr>config = cfg, dist_calc = \<lparr>distance_cache = Map.empty, use_cache = cfg_use_cache cfg\<rparr>\<rparr>"

subsection \<open>Path distance and index extraction\<close>

definition calculate_path_distance ::
  "(Coordinate \<Rightarrow> Coordinate \<Rightarrow> real) \<Rightarrow> Coordinate list \<Rightarrow> real" where
  "calculate_path_distance calc p =
     (if length p < 2 then 0
      else foldl (\<lambda>total i. total + calc (p ! i) (p ! (i + 1))) 0 [0..<length p - 1])"

text \<open>
  \<^verbatim>\<open>[waypoints[idx] for idx in indices]\<close>. Every caller inside the planner passes
  indices below \<open>length waypoints\<close>; \<open>two_opt_optimize\<close>, which receives its indices from
  outside, checks them first, where Python's first \<^verbatim>\<open>extract_path\<close> would raise.
\<close>

definition extract_path :: "Coordinate list \<Rightarrow> nat list \<Rightarrow> Coordinate list" where
  "extract_path waypoints indices = map (\<lambda>idx. waypoints ! idx) indices"

abbreviation order_distance ::
  "(Coordinate \<Rightarrow> Coordinate \<Rightarrow> real) \<Rightarrow> Coordinate list \<Rightarrow> nat list \<Rightarrow> real" where
  "order_distance calc waypoints indices \<equiv>
     calculate_path_distance calc (extract_path waypoints indices)"

subsection \<open>Exact solver: enumeration of all permutations\<close>

text \<open>
  \<^verbatim>\<open>itertools.permutations(xs)\<close>: tuples are emitted in lexicographic order of the
  positions of \<open>xs\<close>: first every permutation that starts with \<open>xs[0]\<close>, then every one
  that starts with \<open>xs[1]\<close>, and so on.
\<close>

fun permutations :: "'a list \<Rightarrow> 'a list list" where
  "permutations [] = [[]]"
| "permutations (x # xs) =
     concat (map (\<lambda>i. map ((#) ((x # xs) ! i))
                          (permutations (take i (x # xs) @ drop (Suc i) (x # xs))))
                 [0..<length (x # xs)])"

definition exact_step ::
  "(Coordinate \<Rightarrow> Coordinate \<Rightarrow> real) \<Rightarrow> Coordinate list \<Rightarrow> nat list \<times> real \<Rightarrow> nat list
     \<Rightarrow> nat list \<times> real" where
  "exact_step calc waypoints best perm =
     (let dist = order_distance calc waypoints perm
      in if dist < snd best then (perm, dist) else best)"

subsection \<open>The random source\<close>

text \<open>
  The planner draws from the process-global generator of Python's \<^verbatim>\<open>random\<close> module.
  Its state is threaded through every routine that draws; the generator itself is a
  parameter: \<open>seed\<close> is \<^verbatim>\<open>random.seed(a)\<close>, \<open>randint_draw\<close> is
  \<^verbatim>\<open>random.randint(lo, hi)\<close> on a non-empty range and \<open>random_draw\<close> is
  \<^verbatim>\<open>random.random()\<close>. \<open>valid_source\<close> is the library's contract on the values drawn.
\<close>

record 'g random_source =
  seed :: "nat \<Rightarrow> 'g"
  randint_draw :: "int \<Rightarrow> int \<Rightarrow> 'g \<Rightarrow> int \<times> 'g"
  random_draw :: "'g \<Rightarrow> real \<times> 'g"


text \<open>\<^verbatim>\<open>random.randint(lo, hi)\<close> raises ValueError on an empty range.\<close>

definition randint :: "'g random_source \<Rightarrow> int \<Rightarrow> int \<Rightarrow> 'g \<Rightarrow> error + (int \<times> 'g)" where
  "randint rs lo hi g = (if hi < lo then Inl ValueError else Inr (randint_draw rs lo hi g))"

text \<open>
  \<^verbatim>\<open>RoutePlanner.__init__\<close>: builds the planner and calls \<^verbatim>\<open>random.seed()\<close>, which
  replaces the state of the global generator by one made from system entropy.
\<close>

definition init_planner ::
  "'g random_source \<Rightarrow> AlgorithmConfig \<Rightarrow> nat \<Rightarrow> 'g \<Rightarrow> RoutePlanner \<times> 'g" where
  "init_planner rs cfg entropy g = (new_planner cfg, seed rs entropy)"

subsection \<open>Construction heuristic\<close>

text \<open>The inner \<^verbatim>\<open>for j in range(n)\<close> loop: state \<open>(next_point, best_dist)\<close>.\<close>

definition nearest_step ::
  "(Coordinate \<Rightarrow> Coordinate \<Rightarrow> real) \<Rightarrow> Coordinate list \<Rightarrow> bool list \<Rightarrow> nat
     \<Rightarrow> nat \<times> distance \<Rightarrow> nat \<Rightarrow> nat \<times> distance" where
  "nearest_step calc waypoints visited current acc j =
     (if visited ! j then acc
      else (let d = calc (waypoints ! current) (waypoints ! j)
            in if dist_less d (snd acc) then (j, Meters d) else acc))"

definition nearest_unvisited ::
  "(Coordinate \<Rightarrow> Coordinate \<Rightarrow> real) \<Rightarrow> Coordinate list \<Rightarrow> bool list \<Rightarrow> nat \<Rightarrow> nat" where
  "nearest_unvisited calc waypoints visited current =
     fst (foldl (nearest_step calc waypoints visited current) (current, Infinity)
            [0..<length waypoints])"

text \<open>The outer \<^verbatim>\<open>for i in range(1, n)\<close> loop: state \<open>(path, visited, current)\<close>.\<close>

definition greedy_step ::
  "(Coordinate \<Rightarrow> Coordinate \<Rightarrow> real) \<Rightarrow> Coordinate list \<Rightarrow> nat list \<times> bool list \<times> nat \<Rightarrow> nat
     \<Rightarrow> nat list \<times> bool list \<times> nat" where
  "greedy_step calc waypoints st i =
     (case st of (p, visited, current) \<Rightarrow>
        (let next_point = nearest_unvisited calc waypoints visited current
         in if next_point \<noteq> current
            then (p[i := next_point], visited[next_point := True], next_point)
            else (p, visited, current)))"

text \<open>\<^verbatim>\<open>construct_greedy_path\<close> after the starting index \<open>current\<close> has been drawn.\<close>

definition greedy_from ::
  "(Coordinate \<Rightarrow> Coordinate \<Rightarrow> real) \<Rightarrow> Coordinate list \<Rightarrow> nat \<Rightarrow> nat list" where
  "greedy_from calc waypoints current =
     (let n = length waypoints;
          p = [0..<n][0 := current];
          visited = (replicate n False)[current := True]
      in fst (foldl (greedy_step calc waypoints) (p, visited, current) [1..<n]))"

definition construct_greedy_path ::
  "(Coordinate \<Rightarrow> Coordinate \<Rightarrow> real) \<Rightarrow> 'g random_source \<Rightarrow> Coordinate list \<Rightarrow> 'g
     \<Rightarrow> error + (nat list \<times> 'g)" where
  "construct_greedy_path calc rs waypoints g =
     (case randint rs 0 (int (length waypoints) - 1) g of
        Inl e \<Rightarrow> Inl e
      | Inr (current, g') \<Rightarrow> Inr (greedy_from calc waypoints (nat current), g'))"

subsection \<open>2-opt local search\<close>

text \<open>
  \<^verbatim>\<open>two_opt_swap\<close> reverses \<open>path[i..j]\<close> in place. Both callers pass
  \<open>1 \<le> i < j < length path\<close>.
\<close>

function two_opt_swap :: "nat list \<Rightarrow> nat \<Rightarrow> nat \<Rightarrow> nat list" where
  "two_opt_swap p i j =
     (if i < j then two_opt_swap (p[i := p ! j, j := p ! i]) (i + 1) (j - 1) else p)"
  by pat_completeness auto
termination
  by (relation "measure (\<lambda>(p, i, j). j - i)") auto

declare two_opt_swap.simps [simp del]

text \<open>The body of the two nested \<^verbatim>\<open>for\<close> loops: state \<open>(path, best_distance, improved)\<close>.\<close>

definition sweep_step ::
  "(Coordinate \<Rightarrow> Coordinate \<Rightarrow> real) \<Rightarrow> Coordinate list \<Rightarrow> nat list \<times> real \<times> bool \<Rightarrow> nat \<times> nat
     \<Rightarrow> nat list \<times> real \<times> bool" where
  "sweep_step calc waypoints st ij =
     (case st of (p, best_distance, improved) \<Rightarrow>
        (let temp_path = two_opt_swap p (fst ij) (snd ij);
             new_distance = order_distance calc waypoints temp_path
         in if new_distance < best_distance then (temp_path, new_distance, True)
            else (p, best_distance, improved)))"

text \<open>\<^verbatim>\<open>for i in range(1, n - 1): for j in range(i + 1, n)\<close>, in the order of the loops.\<close>

definition sweep_pairs :: "nat \<Rightarrow> (nat \<times> nat) list" where
  "sweep_pairs n = concat (map (\<lambda>i. map (\<lambda>j. (i, j)) [i + 1..<n]) [1..<n - 1])"

text \<open>One pass of the \<^verbatim>\<open>while\<close> body, started with \<open>improved = False\<close>.\<close>

definition sweep ::
  "(Coordinate \<Rightarrow> Coordinate \<Rightarrow> real) \<Rightarrow> Coordinate list \<Rightarrow> nat list \<Rightarrow> real
     \<Rightarrow> nat list \<times> real \<times> bool" where
  "sweep calc waypoints p best_distance =
     foldl (sweep_step calc waypoints) (p, best_distance, False) (sweep_pairs (length p))"

text \<open>\<^verbatim>\<open>while improved\<close>: \<open>None\<close> is a search that never stops.\<close>

partial_function (option) two_opt_loop ::
  "(Coordinate \<Rightarrow> Coordinate \<Rightarrow> real) \<Rightarrow> Coordinate list \<Rightarrow> nat list \<Rightarrow> real \<Rightarrow> nat list option" where
  "two_opt_loop calc waypoints p best_distance =
     (case sweep calc waypoints p best_distance of
        (p', best_distance', improved) \<Rightarrow>
          if improved then two_opt_loop calc waypoints p' best_distance' else Some p')"

text \<open>
  The first \<^verbatim>\<open>extract_path\<close> raises IndexError when an index of \<open>path\<close> is outside the
  waypoints; every later path is a rearrangement of the first.
\<close>

definition two_opt_optimize ::
  "(Coordinate \<Rightarrow> Coordinate \<Rightarrow> real) \<Rightarrow> RoutePlanner \<Rightarrow> Coordinate list \<Rightarrow> nat list
     \<Rightarrow> error + nat list" where
  "two_opt_optimize calc self waypoints p =
     (if \<not> enable_local_search (config self) then Inr p
      else if list_ex (\<lambda>idx. length waypoints \<le> idx) p then Inl IndexError
      else (case two_opt_loop calc waypoints p (order_distance calc waypoints p) of
              None \<Rightarrow> Inl NonTermination
            | Some p' \<Rightarrow> Inr p'))"

subsection \<open>Simulated annealing\<close>

record sa_state =
  current_path :: "nat list"
  current_dist :: real
  best_path :: "nat list"
  best_dist :: real
  temp :: real

text \<open>
  The acceptance test
  \<^verbatim>\<open>delta < 0 or (temp > 1e-9 and random.random() < math.exp(-delta / temp))\<close>:
  \<^verbatim>\<open>or\<close> and \<^verbatim>\<open>and\<close> short-circuit, so \<^verbatim>\<open>random.random()\<close> is drawn only when
  \<open>delta \<ge> 0\<close> and \<open>temp > 1e-9\<close>.
\<close>

definition accept_move :: "'g random_source \<Rightarrow> real \<Rightarrow> real \<Rightarrow> 'g \<Rightarrow> bool \<times> 'g" where
  "accept_move rs delta t g =
     (if delta < 0 then (True, g)
      else if t > 1 / 10 ^ 9
           then (case random_draw rs g of (u, g') \<Rightarrow> (u < exp (- delta / t), g'))
           else (False, g))"

text \<open>
  One pass of the body of \<^verbatim>\<open>for _ in range(max_iter)\<close>. The result is
  \<open>(break, state, generator)\<close>.
\<close>

definition sa_iteration ::
  "(Coordinate \<Rightarrow> Coordinate \<Rightarrow> real) \<Rightarrow> 'g random_source \<Rightarrow> RoutePlanner \<Rightarrow> Coordinate list
     \<Rightarrow> sa_state \<Rightarrow> 'g \<Rightarrow> error + (bool \<times> sa_state \<times> 'g)" where
  "sa_iteration calc rs self waypoints st g =
     (let n = int (length waypoints) in
      case randint rs 1 (n - 1) g of
        Inl e \<Rightarrow> Inl e
      | Inr (i0, g1) \<Rightarrow>
     (case randint rs 1 (n - 1) g1 of
        Inl e \<Rightarrow> Inl e
      | Inr (j0, g2) \<Rightarrow>
          if i0 = j0 then Inr (False, st, g2)
          else
            (let i = nat (min i0 j0);
                 j = nat (max i0 j0);
                 old_path = current_path st;
                 new_path = two_opt_swap (current_path st) i j;
                 new_dist = order_distance calc waypoints new_path;
                 delta = new_dist - current_dist st
             in case accept_move rs delta (temp st) g2 of
                  (accepted, g3) \<Rightarrow>
                    (let st1 =
                       (if accepted
                        then (if new_dist < best_dist st
                              then st\<lparr>current_path := new_path, current_dist := new_dist,
                                      best_path := new_path, best_dist := new_dist\<rparr>
                              else st\<lparr>current_path := new_path, current_dist := new_dist\<rparr>)
                        else st\<lparr>current_path := old_path\<rparr>);
                         st2 = st1\<lparr>temp := temp st * cooling_rate (config self)\<rparr>
                     in Inr (temp st2 < 1, st2, g3)))))"

fun sa_loop ::
  "(Coordinate \<Rightarrow> Coordinate \<Rightarrow> real) \<Rightarrow> 'g random_source \<Rightarrow> RoutePlanner \<Rightarrow> Coordinate list
     \<Rightarrow> nat \<Rightarrow> sa_state \<Rightarrow> 'g \<Rightarrow> error + (sa_state \<times> 'g)" where
  "sa_loop calc rs self waypoints 0 st g = Inr (st, g)"
| "sa_loop calc rs self waypoints (Suc k) st g =
     (case sa_iteration calc rs self waypoints st g of
        Inl e \<Rightarrow> Inl e
      | Inr (stop, st', g') \<Rightarrow>
          if stop then Inr (st', g') else sa_loop calc rs self waypoints k st' g')"

definition sa_initial_state ::
  "(Coordinate \<Rightarrow> Coordinate \<Rightarrow> real) \<Rightarrow> RoutePlanner \<Rightarrow> Coordinate list \<Rightarrow> nat list \<Rightarrow> sa_state" where
  "sa_initial_state calc self waypoints p =
     \<lparr>current_path = p, current_dist = order_distance calc waypoints p,
      best_path = p, best_dist = order_distance calc waypoints p,
      temp = initial_temperature (config self)\<rparr>"

definition max_iter :: "RoutePlanner \<Rightarrow> Coordinate list \<Rightarrow> nat" where
  "max_iter self waypoints =
     nat (min (max_iterations (config self))
              (int (length waypoints * length waypoints * 50)))"

definition simulated_annealing ::
  "(Coordinate \<Rightarrow> Coordinate \<Rightarrow> real) \<Rightarrow> 'g random_source \<Rightarrow> RoutePlanner \<Rightarrow> Coordinate list \<Rightarrow> 'g
     \<Rightarrow> error + (nat list \<times> 'g)" where
  "simulated_annealing calc rs self waypoints g =
     (case construct_greedy_path calc rs waypoints g of
        Inl e \<Rightarrow> Inl e
      | Inr (p, g1) \<Rightarrow>
          (case sa_loop calc rs self waypoints (max_iter self waypoints)
                  (sa_initial_state calc self waypoints p) g1 of
             Inl e \<Rightarrow> Inl e
           | Inr (st, g2) \<Rightarrow> Inr (best_path st, g2)))"

subsection \<open>Exact solver and orchestrator\<close>

definition solve_exact_internal ::
  "(Coordinate \<Rightarrow> Coordinate \<Rightarrow> real) \<Rightarrow> 'g random_source \<Rightarrow> RoutePlanner \<Rightarrow> Coordinate list \<Rightarrow> 'g
     \<Rightarrow> error + (nat list \<times> 'g)" where
  "solve_exact_internal calc rs self waypoints g =
     (let n = length waypoints in
      if n > 12 then simulated_annealing calc rs self waypoints g
      else (let best_perm = [0..<n];
                best_dist = order_distance calc waypoints best_perm
            in Inr (fst (foldl (exact_step calc waypoints) (best_perm, best_dist)
                           (permutations [0..<n])), g)))"

text \<open>
  The choice of algorithm inside the loop over the pairs. \<^verbatim>\<open>execution_time_ms\<close> reads
  the wall clock and is left out of the result.
\<close>

definition internal_order ::
  "(Coordinate \<Rightarrow> Coordinate \<Rightarrow> real) \<Rightarrow> 'g random_source \<Rightarrow> RoutePlanner \<Rightarrow> Coordinate list \<Rightarrow> 'g
     \<Rightarrow> error + (nat list \<times> 'g)" where
  "internal_order calc rs self waypoints g =
     (if length waypoints \<le> 12 then solve_exact_internal calc rs self waypoints g
      else (case simulated_annealing calc rs self waypoints g of
              Inl e \<Rightarrow> Inl e
            | Inr (order, g') \<Rightarrow>
                if enable_local_search (config self)
                then (case two_opt_optimize calc self waypoints order of
                        Inl e \<Rightarrow> Inl e
                      | Inr order' \<Rightarrow> Inr (order', g'))
                else Inr (order, g')))"

definition empty_result :: RouteResult where
  "empty_result = \<lparr>path = [], total_distance = Infinity, start_index = 0, end_index = 0\<rparr>"

text \<open>The body of the loop over \<open>(si, ei)\<close>; the state is the best result so far.\<close>

definition plan_pair ::
  "(Coordinate \<Rightarrow> Coordinate \<Rightarrow> real) \<Rightarrow> 'g random_source \<Rightarrow> RoutePlanner \<Rightarrow> Coordinate list
     \<Rightarrow> Coordinate list \<Rightarrow> Coordinate list \<Rightarrow> RouteResult \<Rightarrow> nat \<times> nat \<Rightarrow> 'g
     \<Rightarrow> error + (RouteResult \<times> 'g)" where
  "plan_pair calc rs self starts waypoints ends best se g =
     (case internal_order calc rs self waypoints g of
        Inl e \<Rightarrow> Inl e
      | Inr (order, g') \<Rightarrow>
          (let full_path = [starts ! fst se] @ map (\<lambda>idx. waypoints ! idx) order @ [ends ! snd se];
               total_dist = calculate_path_distance calc full_path
           in if dist_less total_dist (total_distance best)
              then Inr (\<lparr>path = full_path, total_distance = Meters total_dist,
                         start_index = fst se, end_index = snd se\<rparr>, g')
              else Inr (best, g')))"

fun plan_pairs ::
  "(Coordinate \<Rightarrow> Coordinate \<Rightarrow> real) \<Rightarrow> 'g random_source \<Rightarrow> RoutePlanner \<Rightarrow> Coordinate list
     \<Rightarrow> Coordinate list \<Rightarrow> Coordinate list \<Rightarrow> (nat \<times> nat) list \<Rightarrow> RouteResult \<Rightarrow> 'g
     \<Rightarrow> error + (RouteResult \<times> 'g)" where
  "plan_pairs calc rs self starts waypoints ends [] best g = Inr (best, g)"
| "plan_pairs calc rs self starts waypoints ends (se # rest) best g =
     (case plan_pair calc rs self starts waypoints ends best se g of
        Inl e \<Rightarrow> Inl e
      | Inr (best', g') \<Rightarrow> plan_pairs calc rs self starts waypoints ends rest best' g')"

text \<open>
  \<^verbatim>\<open>for si in range(len(starts)): for ei in range(len(ends))\<close> visits the pairs in the
  order of \<open>List.product\<close>.
\<close>

definition plan_route ::
  "(Coordinate \<Rightarrow> Coordinate \<Rightarrow> real) \<Rightarrow> 'g random_source \<Rightarrow> RoutePlanner \<Rightarrow> Coordinate list
     \<Rightarrow> Coordinate list \<Rightarrow> Coordinate list \<Rightarrow> 'g \<Rightarrow> error + (RouteResult \<times> 'g)" where
  "plan_route calc rs self starts waypoints ends g =
     plan_pairs calc rs self starts waypoints ends
       (List.product [0..<length starts] [0..<length ends]) empty_result g"


subsection \<open>Specification of the greedy construction\<close>



subsection \<open>Invariants of the annealing loop and of the route result\<close>



subsection \<open>Concrete inputs for the worked examples\<close>

text \<open>
  A metric that the simplifier can evaluate, a generator that counts its draws, and the
  strict lexicographic order on index lists.
\<close>

definition taxicab :: "Coordinate \<Rightarrow> Coordinate \<Rightarrow> real" where
  "taxicab a b = \<bar>longitude a - longitude b\<bar> + \<bar>latitude a - latitude b\<bar>"

definition point :: "real \<Rightarrow> real \<Rightarrow> Coordinate" where
  "point lon lat = \<lparr>longitude = lon, latitude = lat\<rparr>"

definition counting_source :: "nat random_source" where
  "counting_source =
     \<lparr>seed = (\<lambda>a. a),
      randint_draw = (\<lambda>lo hi g. (lo + int g mod (hi - lo + 1), Suc g)),
      random_draw = (\<lambda>g. (0, Suc g))\<rparr>"

abbreviation lex_less :: "('a::linorder) list \<Rightarrow> 'a list \<Rightarrow> bool" where
  "lex_less p q \<equiv> (p, q) \<in> lexord {(a, b). a < b}"


section \<open>The enumeration of permutations\<close>


lemma permutations_Cons_unfold:
  "ys \<noteq> [] \<Longrightarrow> permutations ys =
     concat (map (\<lambda>i. map ((#) (ys ! i)) (permutations (take i ys @ drop (Suc i) ys)))
                 [0..<length ys])"
  by (cases ys) simp_all




lemma sorted_wrt_concat:
  "sorted_wrt R (concat xss) \<longleftrightarrow>
     (\<forall>xs\<in>set xss. sorted_wrt R xs) \<and>
     sorted_wrt (\<lambda>xs ys. \<forall>x\<in>set xs. \<forall>y\<in>set ys. R x y) xss"
  by (induction xss) (auto simp: sorted_wrt_append)

lemma sorted_wrt_del_nth:
  assumes "sorted_wrt R ys"
  shows "sorted_wrt R (take i ys @ drop (Suc i) ys)"
proof -
  have "sorted_wrt R (take i ys @ drop i ys)" using assms by simp
  then have a: "sorted_wrt R (take i ys)" and b: "sorted_wrt R (drop i ys)"
    and c: "\<forall>x\<in>set (take i ys). \<forall>y\<in>set (drop i ys). R x y"
    unfolding sorted_wrt_append by auto
  have d: "set (drop (Suc i) ys) \<subseteq> set (drop i ys)"
    by (metis Suc_n_not_le_n nat_le_linear set_drop_subset_set_drop)
  have "sorted_wrt R (drop (Suc i) ys)"
    using assms by (metis append_take_drop_id sorted_wrt_append)
  then show ?thesis using a c d by (auto simp: sorted_wrt_append)
qed

lemma permutations_lex_sorted:
  "sorted_wrt (<) ys \<Longrightarrow> sorted_wrt lex_less (permutations ys)"
proof (induction "length ys" arbitrary: ys)
  case 0
  then show ?case by simp
next
  case (Suc n)
  then have ne: "ys \<noteq> []" by auto
  let ?f = "\<lambda>i. map ((#) (ys ! i)) (permutations (take i ys @ drop (Suc i) ys))"
  have each: "sorted_wrt lex_less (?f i)" if i: "i < length ys" for i
  proof -
    have "n = length (take i ys @ drop (Suc i) ys)" using Suc.hyps(2) i by auto
    from Suc.hyps(1)[OF this sorted_wrt_del_nth[OF Suc.prems]]
    show ?thesis by (simp add: sorted_wrt_map)
  qed
  have cross: "\<forall>p\<in>set (?f i). \<forall>q\<in>set (?f j). lex_less p q"
    if "i < j" "j < length ys" for i j
  proof -
    have "ys ! i < ys ! j" using Suc.prems that by (simp add: sorted_wrt_iff_nth_less)
    then show ?thesis by auto
  qed
  have "sorted_wrt (\<lambda>i j. \<forall>p\<in>set (?f i). \<forall>q\<in>set (?f j). lex_less p q) [0..<length ys]"
    using cross by (simp add: sorted_wrt_iff_nth_less)
  then have "sorted_wrt (\<lambda>xs ys. \<forall>p\<in>set xs. \<forall>q\<in>set ys. lex_less p q) (map ?f [0..<length ys])"
    by (simp add: sorted_wrt_map)
  moreover have "\<forall>xs\<in>set (map ?f [0..<length ys]). sorted_wrt lex_less xs"
    using each by auto
  ultimately show ?case
    unfolding permutations_Cons_unfold[OF ne] sorted_wrt_concat by blast
qed

lemma lex_less_irrefl: "\<not> lex_less p p"
  by (induction p) auto

lemma sorted_wrt_irrefl_distinct:
  "sorted_wrt R xs \<Longrightarrow> (\<And>x. \<not> R x x) \<Longrightarrow> distinct xs"
  by (induction xs) auto

lemma permutations_distinct:
  assumes "sorted_wrt (<) (ys :: ('a::linorder) list)" shows "distinct (permutations ys)"
  using permutations_lex_sorted[OF assms] lex_less_irrefl
  by (rule sorted_wrt_irrefl_distinct)

section \<open>The exact solver\<close>









section \<open>The orchestrator without waypoints and without candidates\<close>

lemma product_Nil_right: "List.product xs [] = []"
  by (induction xs) auto










text \<open>
  C4, as the code has it. \<open>plan_route\<close> does not validate its candidate lists: with no
  start or no end the loops over the pairs run zero times, nothing is computed or drawn,
  and the call returns the result built from the initial values: an empty path, the
  distance \<^verbatim>\<open>float('inf')\<close> and both indices 0. No error is signalled.
\<close>

theorem plan_route_empty_candidates:
  assumes "starts = [] \<or> ends = []"
  shows "plan_route calc rs self starts waypoints ends g =
     Inr (\<lparr>path = [], total_distance = Infinity, start_index = 0, end_index = 0\<rparr>, g)"
  using assms by (auto simp: plan_route_def product_Nil_right empty_result_def)

theorem plan_route_empty_candidates_witness:
  "([point 0 0] = [] \<or> ([] :: Coordinate list) = []) \<and>
   plan_route taxicab counting_source (new_planner default_config)
     [point 0 0] [point 0 1, point 0 2] [] (0::nat) =
     Inr (\<lparr>path = [], total_distance = Infinity, start_index = 0, end_index = 0\<rparr>, 0)"
proof -
  have h: "[point 0 0] = [] \<or> ([] :: Coordinate list) = []" by simp
  from h plan_route_empty_candidates [OF h, of taxicab counting_source
      "new_planner default_config" "[point 0 1, point 0 2]" "0::nat"]
  show ?thesis by (intro conjI)
qed

text \<open>
  The claim that such a call is rejected with an error fails on the haversine metric with
  an empty start list: the call returns, and what it returns is the default result.
\<close>

theorem plan_route_empty_starts_counterexample:
  "plan_route calculate counting_source (new_planner default_config)
     [] [point 116 39] [point 121 31] (0::nat) =
     Inr (\<lparr>path = [], total_distance = Infinity, start_index = 0, end_index = 0\<rparr>, 0) \<and>
   (\<forall>e. plan_route calculate counting_source (new_planner default_config)
     [] [point 116 39] [point 121 31] (0::nat) \<noteq> Inl e)"
  by (simp add: plan_route_def empty_result_def)


section \<open>The construction heuristic\<close>















section \<open>The 2-opt local search\<close>














section \<open>Simulated annealing\<close>




lemma sa_iteration_error:
  assumes "length wps < 2"
  shows "sa_iteration calc rs self wps st g = Inl ValueError"
  using assms by (simp add: sa_iteration_def randint_def)





section \<open>The orchestrator\<close>










end
